theory Spec2Isabelle
  imports Complex_Main "HOL-Library.Sublist"
begin

section \<open>The image-to-GLB gateway of \<^verbatim>\<open>backend/api_linux.py\<close>\<close>

text \<open>
  The module loads one generative pipeline at import time, serves \<^verbatim>\<open>GET /\<close> and
  \<^verbatim>\<open>POST /convert\<close>, and runs every conversion as one blocking job. Its
  collaborators (torch, the TRELLIS pipeline, the GLB exporter, PIL, the file-name sanitizer,
  the uploaded file) are not part of the module: they are parameters of the model, each
  a function that may raise and that may change the state of the outside world. Three
  library functions decide claims and are written out after their own sources:
  \<^verbatim>\<open>os.path.splitext\<close>, the header encoding of the response constructor, and the
  sanitizer package, which the examples run in place of the sanitizer parameter.
\<close>

subsection \<open>Text\<close>

text \<open>
  A Python \<^verbatim>\<open>str\<close> is a sequence of code points: file names are not limited to one
  byte per character, and line 102 puts them into a response header. \<open>ascii\<close> writes a
  literal. Byte strings, and the messages of exceptions, stay lists of \<open>char\<close>.
\<close>

type_synonym pystr = "nat list"

type_synonym bytes = string

definition ascii :: "string \<Rightarrow> pystr" where
  "ascii s = map of_char s"

subsection \<open>Exceptions\<close>

text \<open>
  An exception value. Only \<^verbatim>\<open>str(e)\<close> is ever observed by the module (line 106).
  \<open>RuntimeError\<close> is the one the module raises itself (line 53); \<open>KeyError\<close> and
  \<open>IndexError\<close> are what the subscripts of lines 63 and 64 raise;
  \<open>UnicodeEncodeError v start end\<close> is what encoding the text \<open>v\<close> as latin-1 raises, with
  the range of positions it could not encode; \<open>Raised\<close> is any other exception of a
  collaborator, with its message.
\<close>

datatype exn =
    RuntimeError string
  | KeyError string
  | IndexError string
  | UnicodeEncodeError pystr nat nat
  | Raised string

text \<open>Decimal and hexadecimal digits, as \<^verbatim>\<open>%d\<close>, \<^verbatim>\<open>%04x\<close> and \<^verbatim>\<open>%08x\<close> print them.\<close>

definition digit :: "nat \<Rightarrow> char" where
  "digit d = ''0123456789abcdef'' ! d"

function decimal :: "nat \<Rightarrow> string" where
  "decimal n = (if n < 10 then [digit n] else decimal (n div 10) @ [digit (n mod 10)])"
  by pat_completeness auto
termination
  by (relation "measure id") auto

declare decimal.simps [simp del]

definition hex4 :: "nat \<Rightarrow> string" where
  "hex4 n = map (\<lambda>k. digit (n div k mod 16)) [4096, 256, 16, 1]"

definition hex8 :: "nat \<Rightarrow> string" where
  "hex8 n = map (\<lambda>k. digit (n div k mod 16))
              [268435456, 16777216, 1048576, 65536, 4096, 256, 16, 1]"

text \<open>
  The text of a \<^verbatim>\<open>UnicodeEncodeError\<close> of the latin-1 codec: one character is named
  with its escape, a longer run by its first and last position.
\<close>

definition escape_char :: "nat \<Rightarrow> string" where
  "escape_char c =
     (if c \<le> 255 then [CHR 0x5C] @ ''x'' @ drop 2 (hex4 c)
      else if c \<le> 65535 then [CHR 0x5C] @ ''u'' @ hex4 c
      else [CHR 0x5C] @ ''U'' @ hex8 c)"

definition encode_error_text :: "pystr \<Rightarrow> nat \<Rightarrow> nat \<Rightarrow> string" where
  "encode_error_text v start end =
     (if start < length v \<and> end = start + 1
      then [CHR 0x27] @ ''latin-1'' @ [CHR 0x27] @ '' codec can'' @ [CHR 0x27]
           @ ''t encode character '' @ [CHR 0x27] @ escape_char (v ! start) @ [CHR 0x27]
           @ '' in position '' @ decimal start @ '': ordinal not in range(256)''
      else [CHR 0x27] @ ''latin-1'' @ [CHR 0x27] @ '' codec can'' @ [CHR 0x27]
           @ ''t encode characters in position '' @ decimal start @ ''-'' @ decimal (end - 1)
           @ '': ordinal not in range(256)'')"

text \<open>\<^verbatim>\<open>str(e)\<close>: the message, and for a \<open>KeyError\<close> the key between single quotes.\<close>

fun str_exn :: "exn \<Rightarrow> string" where
  "str_exn (RuntimeError m) = m"
| "str_exn (KeyError k) = [CHR 0x27] @ k @ [CHR 0x27]"
| "str_exn (IndexError m) = m"
| "str_exn (UnicodeEncodeError v start end) = encode_error_text v start end"
| "str_exn (Raised m) = m"

subsection \<open>\<^verbatim>\<open>os.path.splitext\<close> on POSIX\<close>

text \<open>
  Line 88 calls the standard library's \<^verbatim>\<open>os.path.splitext\<close>; on Linux that is
  \<^verbatim>\<open>genericpath._splitext(p, '/', None, '.')\<close>:
  \<^verbatim>\<open>
    sepIndex = p.rfind(sep)
    dotIndex = p.rfind(extsep)
    if dotIndex > sepIndex:
        filenameIndex = sepIndex + 1
        while filenameIndex < dotIndex:
            if p[filenameIndex:filenameIndex+1] != extsep:
                return p[:dotIndex], p[dotIndex:]
            filenameIndex += 1
    return p, p[:0]
  \<close>
\<close>

text \<open>The slash and the dot.\<close>

definition sep :: nat where
  "sep = 47"

definition extsep :: nat where
  "extsep = 46"

text \<open>\<^verbatim>\<open>p.rfind(c)\<close>: the highest index of \<open>c\<close> in \<open>p\<close>, or \<open>-1\<close>.\<close>

fun rfind_from :: "nat \<Rightarrow> pystr \<Rightarrow> int \<Rightarrow> int \<Rightarrow> int" where
  "rfind_from c [] i found = found"
| "rfind_from c (x # xs) i found = rfind_from c xs (i + 1) (if x = c then i else found)"

definition rfind :: "nat \<Rightarrow> pystr \<Rightarrow> int" where
  "rfind c p = rfind_from c p 0 (- 1)"

text \<open>
  The \<^verbatim>\<open>while\<close> loop: does some position in \<open>[filenameIndex, dotIndex)\<close> hold a
  character other than the dot? (\<open>p[i:i+1]\<close> is the empty string past the end, which differs
  from the dot as well.)
\<close>

function skip_leading_dots :: "pystr \<Rightarrow> nat \<Rightarrow> nat \<Rightarrow> bool" where
  "skip_leading_dots p filenameIndex dotIndex =
     (if filenameIndex < dotIndex
      then (if take 1 (drop filenameIndex p) \<noteq> [extsep] then True
            else skip_leading_dots p (filenameIndex + 1) dotIndex)
      else False)"
  by pat_completeness auto
termination
  by (relation "measure (\<lambda>(p, filenameIndex, dotIndex). dotIndex - filenameIndex)") auto

declare skip_leading_dots.simps [simp del]

definition splitext :: "pystr \<Rightarrow> pystr \<times> pystr" where
  "splitext p =
     (let sepIndex = rfind sep p;
          dotIndex = rfind extsep p
      in if dotIndex > sepIndex \<and> skip_leading_dots p (nat (sepIndex + 1)) (nat dotIndex)
         then (take (nat dotIndex) p, drop (nat dotIndex) p)
         else (p, []))"

subsection \<open>The base name and the download name (lines 88, 89 and 102)\<close>

text \<open>
  \<^verbatim>\<open>
    base_name, _ = os.path.splitext(safe_name)
    if not base_name: base_name = "output"
  \<close>
\<close>

definition base_name_of :: "pystr \<Rightarrow> pystr" where
  "base_name_of safe_name =
     (let (base_name, _) = splitext safe_name
      in if base_name = [] then ascii ''output'' else base_name)"

text \<open>The f-string of line 102: \<^verbatim>\<open>attachment; filename="{base_name}.glb"\<close>.\<close>

definition download_name :: "pystr \<Rightarrow> pystr" where
  "download_name base_name = base_name @ ascii ''.glb''"

definition content_disposition :: "pystr \<Rightarrow> pystr" where
  "content_disposition base_name =
     ascii ''attachment; filename='' @ [34] @ download_name base_name @ [34]"

subsection \<open>Programs over the outside world\<close>

text \<open>
  What the module prints, and the calls it makes, in the order it makes them. The
  trace is kept by the model; the collaborators see only the \<open>world\<close>, their own state
  (model weights, accelerator memory, the upload's stream).
\<close>

datatype log_line =
    LoadingModel
  | CudaNotDetected
  | MpsHint
  | ModelLoadFailed string
  | ErrorLine string

datatype event =
    Printed log_line
  | FromPretrained string
  | PipelineTo string
  | FileRead
  | ImageOpen
  | PipelineRun
  | ToGlb
  | GlbExport
  | DelOutputs
  | EmptyCache

record 'w state =
  world :: 'w
  trace :: "event list"

text \<open>A statement sequence: it ends with a value or with a raised exception.\<close>

type_synonym ('w, 'a) prog = "'w state \<Rightarrow> (exn + 'a) \<times> 'w state"

definition ret :: "'a \<Rightarrow> ('w, 'a) prog" where
  "ret a s = (Inr a, s)"

definition raise :: "exn \<Rightarrow> ('w, 'a) prog" where
  "raise e s = (Inl e, s)"

definition of_result :: "exn + 'a \<Rightarrow> ('w, 'a) prog" where
  "of_result r s = (r, s)"

text \<open>Sequencing: an exception skips every statement after it.\<close>

definition and_then :: "('w, 'a) prog \<Rightarrow> ('a \<Rightarrow> ('w, 'b) prog) \<Rightarrow> ('w, 'b) prog" where
  "and_then m f s = (case m s of (Inl e, s') \<Rightarrow> (Inl e, s') | (Inr a, s') \<Rightarrow> f a s')"

definition emit :: "event \<Rightarrow> ('w, unit) prog" where
  "emit ev s = (Inr (), s\<lparr>trace := trace s @ [ev]\<rparr>)"

text \<open>A call of a collaborator: recorded when made, whether it returns or raises.\<close>

definition call :: "event \<Rightarrow> ('w \<Rightarrow> (exn + 'a) \<times> 'w) \<Rightarrow> ('w, 'a) prog" where
  "call ev f s = (case f (world s) of (r, w') \<Rightarrow> (r, \<lparr>world = w', trace = trace s @ [ev]\<rparr>))"

definition print_line :: "log_line \<Rightarrow> 'w state \<Rightarrow> 'w state" where
  "print_line l s = s\<lparr>trace := trace s @ [Printed l]\<rparr>"

subsection \<open>The collaborators\<close>

text \<open>
  The pipeline object: \<^verbatim>\<open>pipeline.run(image, seed=, formats=)\<close> returns a dictionary
  from format names to lists of representations; \<^verbatim>\<open>pipeline.to(device)\<close>.
\<close>

record ('w, 'img, 'rep) pipeline_obj =
  pipe_run :: "'img \<Rightarrow> int \<Rightarrow> string list \<Rightarrow> 'w \<Rightarrow> (exn + (string \<times> 'rep list) list) \<times> 'w"
  pipe_to :: "string \<Rightarrow> 'w \<Rightarrow> (exn + unit) \<times> 'w"

text \<open>
  \<^verbatim>\<open>torch.cuda.is_available\<close>, \<^verbatim>\<open>torch.cuda.empty_cache\<close>,
  \<^verbatim>\<open>TrellisImageTo3DPipeline.from_pretrained\<close>, \<^verbatim>\<open>postprocessing_utils.to_glb\<close>,
  \<^verbatim>\<open>glb.export\<close> (the bytes it writes to the buffer), \<^verbatim>\<open>Image.open\<close> and
  \<^verbatim>\<open>sanitize_filename.sanitize\<close>. \<^verbatim>\<open>Image.open\<close> returns an image object without
  having read the pixel data; whoever uses the object reads them.
\<close>

record ('w, 'img, 'rep, 'glb) env =
  cuda_is_available :: bool
  cuda_empty_cache :: "'w \<Rightarrow> (exn + unit) \<times> 'w"
  from_pretrained :: "string \<Rightarrow> 'w \<Rightarrow> (exn + ('w, 'img, 'rep) pipeline_obj) \<times> 'w"
  to_glb :: "'rep \<Rightarrow> 'rep \<Rightarrow> real \<Rightarrow> nat \<Rightarrow> 'w \<Rightarrow> (exn + 'glb) \<times> 'w"
  glb_export :: "'glb \<Rightarrow> string \<Rightarrow> 'w \<Rightarrow> (exn + bytes) \<times> 'w"
  image_open :: "bytes \<Rightarrow> 'w \<Rightarrow> (exn + 'img) \<times> 'w"
  sanitize :: "pystr \<Rightarrow> exn + pystr"

text \<open>The \<^verbatim>\<open>UploadFile\<close> of a request: its \<^verbatim>\<open>filename\<close> and its \<^verbatim>\<open>read()\<close>.\<close>

record 'w upload_file =
  filename :: pystr
  file_read :: "'w \<Rightarrow> (exn + bytes) \<times> 'w"

text \<open>Subscripts: \<^verbatim>\<open>d[k]\<close> on a dictionary and \<^verbatim>\<open>xs[0]\<close> on a list.\<close>

definition getitem :: "(string \<times> 'v) list \<Rightarrow> string \<Rightarrow> exn + 'v" where
  "getitem d k = (case map_of d k of None \<Rightarrow> Inl (KeyError k) | Some v \<Rightarrow> Inr v)"

definition first_item :: "'v list \<Rightarrow> exn + 'v" where
  "first_item xs =
     (case xs of [] \<Rightarrow> Inl (IndexError ''list index out of range'') | x # _ \<Rightarrow> Inr x)"

subsection \<open>Module globals and start-up (lines 17 to 35)\<close>

record ('w, 'img, 'rep) globals =
  device :: string
  pipeline :: "('w, 'img, 'rep) pipeline_obj option"

definition model_name :: string where
  "model_name = ''microsoft/TRELLIS-image-large''"

text \<open>The \<^verbatim>\<open>try\<close> block of lines 29 to 32.\<close>

definition load_pipeline ::
  "('w, 'img, 'rep, 'glb) env \<Rightarrow> string \<Rightarrow> ('w, ('w, 'img, 'rep) pipeline_obj) prog" where
  "load_pipeline env dev =
     and_then (call (FromPretrained model_name) (from_pretrained env model_name)) (\<lambda>p.
     and_then (call (PipelineTo dev) (pipe_to p dev)) (\<lambda>_.
     ret p))"

definition startup ::
  "('w, 'img, 'rep, 'glb) env \<Rightarrow> 'w state \<Rightarrow> ('w, 'img, 'rep) globals \<times> 'w state" where
  "startup env s0 =
     (let s1 = print_line LoadingModel s0;
          (dev, s2) = (if \<not> cuda_is_available env
                       then (''cpu'', print_line MpsHint (print_line CudaNotDetected s1))
                       else (''cuda'', s1))
      in case load_pipeline env dev s2 of
           (Inr p, s3) \<Rightarrow> (\<lparr>device = dev, pipeline = Some p\<rparr>, s3)
         | (Inl e, s3) \<Rightarrow>
             (\<lparr>device = dev, pipeline = None\<rparr>, print_line (ModelLoadFailed (str_exn e)) s3))"

subsection \<open>The job: \<^verbatim>\<open>process_image_to_glb_bytes\<close> (lines 51 to 78)\<close>

definition process_image_to_glb_bytes ::
  "('w, 'img, 'rep, 'glb) env \<Rightarrow> ('w, 'img, 'rep) globals \<Rightarrow> 'img \<Rightarrow> ('w, bytes) prog" where
  "process_image_to_glb_bytes env g img =
     (case pipeline g of
        None \<Rightarrow> raise (RuntimeError ''Model is not loaded.'')
      | Some p \<Rightarrow>
          and_then (call PipelineRun (pipe_run p img 1 [''gaussian'', ''mesh''])) (\<lambda>outputs.
          and_then (of_result (getitem outputs ''gaussian'')) (\<lambda>gaussians.
          and_then (of_result (first_item gaussians)) (\<lambda>gaussian.
          and_then (of_result (getitem outputs ''mesh'')) (\<lambda>meshes.
          and_then (of_result (first_item meshes)) (\<lambda>mesh.
          and_then (call ToGlb (to_glb env gaussian mesh 0.95 1024)) (\<lambda>glb.
          and_then (call GlbExport (glb_export env glb ''glb'')) (\<lambda>glb_bytes.
          and_then (emit DelOutputs) (\<lambda>_.
          and_then (if cuda_is_available env then call EmptyCache (cuda_empty_cache env)
                    else ret ()) (\<lambda>_.
          ret glb_bytes))))))))))"

subsection \<open>The endpoints (lines 46 to 48 and 83 to 106)\<close>

text \<open>
  \<^verbatim>\<open>Response(content=, media_type=, headers=)\<close>, whose status code is the framework's
  default 200, and \<^verbatim>\<open>JSONResponse(status_code=, content=)\<close>. A dictionary a handler
  returns is sent by the framework as a JSON response with status 200.
\<close>

datatype response =
    Response nat bytes string "(string \<times> pystr) list"
  | JSONResponse nat "(string \<times> string) list"

fun status_code :: "response \<Rightarrow> nat" where
  "status_code (Response c _ _ _) = c"
| "status_code (JSONResponse c _) = c"

text \<open>
  The constructor of \<^verbatim>\<open>Response\<close> encodes every header value as latin-1
  (\<^verbatim>\<open>v.encode("latin-1")\<close>) and raises where a value has a character above U+00FF. The
  error names the first run of such characters.
\<close>

definition latin1 :: "pystr \<Rightarrow> bool" where
  "latin1 v = list_all (\<lambda>c. c < 256) v"

definition encode_latin1 :: "pystr \<Rightarrow> exn + pystr" where
  "encode_latin1 v =
     (if latin1 v then Inr v
      else let start = length (takeWhile (\<lambda>c. c < 256) v);
               run = length (takeWhile (\<lambda>c. \<not> c < 256) (drop start v))
           in Inl (UnicodeEncodeError v start (start + run)))"

fun encode_headers :: "(string \<times> pystr) list \<Rightarrow> exn + unit" where
  "encode_headers [] = Inr ()"
| "encode_headers ((k, v) # hs) =
     (case encode_latin1 v of Inl e \<Rightarrow> Inl e | Inr _ \<Rightarrow> encode_headers hs)"

definition new_response :: "bytes \<Rightarrow> string \<Rightarrow> (string \<times> pystr) list \<Rightarrow> exn + response" where
  "new_response content media_type headers =
     (case encode_headers headers of
        Inl e \<Rightarrow> Inl e
      | Inr _ \<Rightarrow> Inr (Response 200 content media_type headers))"

text \<open>The status text of line 48; its first character is U+2705, three bytes in UTF-8.\<close>

definition status_text :: string where
  "status_text = [CHR 0xE2, CHR 0x9C, CHR 0x85] @ '' Backend is running!''"

definition root :: "('w, 'img, 'rep) globals \<Rightarrow> response" where
  "root g = JSONResponse 200 [(''status'', status_text), (''device'', device g)]"

text \<open>The body of the \<^verbatim>\<open>try\<close> of \<^verbatim>\<open>convert_image\<close>, lines 86 to 103.\<close>

definition convert_try ::
  "('w, 'img, 'rep, 'glb) env \<Rightarrow> ('w, 'img, 'rep) globals \<Rightarrow> 'w upload_file
     \<Rightarrow> ('w, response) prog" where
  "convert_try env g file =
     and_then (of_result (sanitize env (filename file))) (\<lambda>safe_name.
     let base_name = base_name_of safe_name in
     and_then (call FileRead (file_read file)) (\<lambda>image_data.
     and_then (call ImageOpen (image_open env image_data)) (\<lambda>img.
     and_then (process_image_to_glb_bytes env g img) (\<lambda>glb_bytes.
     of_result (new_response glb_bytes ''model/gltf-binary''
                  [(''Content-Disposition'', content_disposition base_name)])))))"

text \<open>The handler: the \<^verbatim>\<open>try\<close> and its \<^verbatim>\<open>except Exception\<close>, lines 104 to 106.\<close>

definition convert_image ::
  "('w, 'img, 'rep, 'glb) env \<Rightarrow> ('w, 'img, 'rep) globals \<Rightarrow> 'w upload_file
     \<Rightarrow> 'w state \<Rightarrow> response \<times> 'w state" where
  "convert_image env g file s =
     (case convert_try env g file s of
        (Inr resp, s') \<Rightarrow> (resp, s')
      | (Inl e, s') \<Rightarrow>
          (JSONResponse 500 [(''error'', str_exn e)], print_line (ErrorLine (str_exn e)) s'))"

subsection \<open>Serving a sequence of requests\<close>

datatype 'w request = GetRoot | PostConvert "'w upload_file"

text \<open>
  One request. Neither handler has a \<^verbatim>\<open>global\<close> statement or assigns \<^verbatim>\<open>device\<close>
  or \<^verbatim>\<open>pipeline\<close>; each reads the globals and leaves them to the next request.
\<close>

fun handle ::
  "('w, 'img, 'rep, 'glb) env \<Rightarrow> 'w request \<Rightarrow> ('w, 'img, 'rep) globals \<times> 'w state
     \<Rightarrow> response \<times> ('w, 'img, 'rep) globals \<times> 'w state" where
  "handle env GetRoot (g, s) = (root g, g, s)"
| "handle env (PostConvert file) (g, s) =
     (case convert_image env g file s of (resp, s') \<Rightarrow> (resp, g, s'))"

fun serve ::
  "('w, 'img, 'rep, 'glb) env \<Rightarrow> 'w request list \<Rightarrow> ('w, 'img, 'rep) globals \<times> 'w state
     \<Rightarrow> response list \<times> ('w, 'img, 'rep) globals \<times> 'w state" where
  "serve env [] gs = ([], gs)"
| "serve env (r # rs) gs =
     (case handle env r gs of
        (resp, gs') \<Rightarrow> (case serve env rs gs' of (resps, gs'') \<Rightarrow> (resp # resps, gs'')))"

text \<open>The module from import to the last request: start-up, then the requests in order.\<close>

definition run_module ::
  "('w, 'img, 'rep, 'glb) env \<Rightarrow> 'w \<Rightarrow> 'w request list
     \<Rightarrow> response list \<times> ('w, 'img, 'rep) globals \<times> 'w state" where
  "run_module env w0 reqs = serve env reqs (startup env \<lparr>world = w0, trace = []\<rparr>)"

subsection \<open>What the specification calls unsafe characters\<close>

text \<open>
  The path separators (slash and backslash), the characters \<open>: * ? " < > |\<close> that
  file systems reserve, and NUL. These are the spec's words, not the module's: the module
  leaves the choice to the sanitizer it calls.
\<close>

definition reserved_chars :: pystr where
  "reserved_chars = ascii ''/'' @ [92] @ ascii '':*?'' @ [34] @ ascii ''<>|'' @ [0]"

definition free_of_reserved :: "pystr \<Rightarrow> bool" where
  "free_of_reserved name = (list_all (\<lambda>c. c \<notin> set reserved_chars) name)"

subsection \<open>The sanitizer package\<close>

text \<open>
  \<^verbatim>\<open>sanitize_filename.sanitize\<close>, the function line 87 calls, after the package's own
  source:
  \<^verbatim>\<open>
    blacklist = ["\\", "/", ":", "*", "?", "\"", "<", ">", "|", "\0"]
    reserved = ["CON", "PRN", "AUX", "NUL", "COM1", ..., "COM9", "LPT1", ..., "LPT9"]
    filename = "".join(c for c in filename if c not in blacklist)
    filename = "".join(c for c in filename if 31 < ord(c))
    filename = unicodedata.normalize("NFKD", filename)
    filename = filename.rstrip(". ")
    filename = filename.strip()
    if all([x == "." for x in filename]):
        filename = "__" + filename
    if filename in reserved:
        filename = "__" + filename
    if len(filename) == 0:
        filename = "__"
    if len(filename) > 255:
        ...
    return filename
  \<close>
  The Unicode tables behind \<^verbatim>\<open>unicodedata.normalize\<close> and the rule that shortens a
  name of more than 255 characters are parameters.
\<close>

definition blacklist :: pystr where
  "blacklist = [92, 47, 58, 42, 63, 34, 60, 62, 124, 0]"

definition reserved_names :: "pystr list" where
  "reserved_names = map ascii
     [''CON'', ''PRN'', ''AUX'', ''NUL'',
      ''COM1'', ''COM2'', ''COM3'', ''COM4'', ''COM5'', ''COM6'', ''COM7'', ''COM8'', ''COM9'',
      ''LPT1'', ''LPT2'', ''LPT3'', ''LPT4'', ''LPT5'', ''LPT6'', ''LPT7'', ''LPT8'', ''LPT9'']"

text \<open>The characters \<^verbatim>\<open>str.strip()\<close> removes: those for which \<^verbatim>\<open>str.isspace\<close> holds.\<close>

definition whitespace :: "nat \<Rightarrow> bool" where
  "whitespace c =
     (c \<in> set [9, 10, 11, 12, 13, 28, 29, 30, 31, 32, 133, 160, 5760]
      \<or> (8192 \<le> c \<and> c \<le> 8202)
      \<or> c \<in> set [8232, 8233, 8239, 8287, 12288])"

definition rstrip :: "pystr \<Rightarrow> pystr \<Rightarrow> pystr" where
  "rstrip chars s = rev (dropWhile (\<lambda>c. c \<in> set chars) (rev s))"

definition strip :: "pystr \<Rightarrow> pystr" where
  "strip s = rev (dropWhile whitespace (rev (dropWhile whitespace s)))"

text \<open>Each line of the function, in turn, as a function of the name so far.\<close>

definition drop_blacklisted :: "pystr \<Rightarrow> pystr" where
  "drop_blacklisted name = filter (\<lambda>c. c \<notin> set blacklist) name"

definition drop_control :: "pystr \<Rightarrow> pystr" where
  "drop_control name = filter (\<lambda>c. 31 < c) name"

definition guard_dots :: "pystr \<Rightarrow> pystr" where
  "guard_dots name = (if list_all (\<lambda>x. x = extsep) name then ascii ''__'' @ name else name)"

definition guard_reserved :: "pystr \<Rightarrow> pystr" where
  "guard_reserved name = (if name \<in> set reserved_names then ascii ''__'' @ name else name)"

definition guard_empty :: "pystr \<Rightarrow> pystr" where
  "guard_empty name = (if length name = 0 then ascii ''__'' else name)"

definition guard_length :: "(pystr \<Rightarrow> pystr) \<Rightarrow> pystr \<Rightarrow> pystr" where
  "guard_length shorten name = (if length name > 255 then shorten name else name)"

definition sanitize_filename :: "(pystr \<Rightarrow> pystr) \<Rightarrow> (pystr \<Rightarrow> pystr) \<Rightarrow> pystr \<Rightarrow> pystr" where
  "sanitize_filename nfkd shorten name =
     guard_length shorten (guard_empty (guard_reserved (guard_dots
       (strip (rstrip (ascii ''. '') (nfkd (drop_control (drop_blacklisted name))))))))"

subsection \<open>Test doubles\<close>

text \<open>
  Stand-ins for the collaborators, used to run the module on concrete inputs. Their world
  is the number of generation results the accelerator still caches: a run adds one, the
  reclaim call drops them all.
\<close>

definition fake_pipeline :: "(nat, bytes, string) pipeline_obj" where
  "fake_pipeline =
     \<lparr>pipe_run = (\<lambda>img seed formats w. (Inr (map (\<lambda>f. (f, [f @ '':'' @ img])) formats), Suc w)),
      pipe_to = (\<lambda>dev w. (Inr (), w))\<rparr>"

definition broken_pipeline :: "(nat, bytes, string) pipeline_obj" where
  "broken_pipeline =
     \<lparr>pipe_run = (\<lambda>img seed formats w. (Inl (Raised ''CUDA out of memory''), Suc w)),
      pipe_to = (\<lambda>dev w. (Inr (), w))\<rparr>"

definition unmovable_pipeline :: "(nat, bytes, string) pipeline_obj" where
  "unmovable_pipeline = fake_pipeline\<lparr>pipe_to := (\<lambda>dev w. (Inl (Raised ''no CUDA device''), w))\<rparr>"

text \<open>
  An image file, for the doubles, is complete when it has its signature and its end
  marker. The image object of \<^verbatim>\<open>Image.open\<close> is the data behind a recognised
  signature; a pipeline that reads the pixels raises on a file cut short.
\<close>

definition complete_image :: "bytes \<Rightarrow> bool" where
  "complete_image data = (take 3 data = ''PNG'' \<and> drop (length data - 4) data = ''IEND'')"

definition reading_pipeline :: "(nat, bytes, string) pipeline_obj" where
  "reading_pipeline =
     \<lparr>pipe_run = (\<lambda>img seed formats w.
        (if complete_image img then Inr (map (\<lambda>f. (f, [f @ '':'' @ img])) formats)
         else Inl (Raised ''image file is truncated''), Suc w)),
      pipe_to = (\<lambda>dev w. (Inr (), w))\<rparr>"

text \<open>
  The normalisation the examples need: U+FF0F, the fullwidth solidus, decomposes to the
  slash; every other character of the examples is its own normal form. No example is
  longer than 255 characters.
\<close>

definition nfkd_examples :: "pystr \<Rightarrow> pystr" where
  "nfkd_examples s = concat (map (\<lambda>c. if c = 65295 then [47] else [c]) s)"

text \<open>Two upload names: \<open>a\<close>, U+FF0F, \<open>b.png\<close>; and U+4E2D, \<open>.png\<close>.\<close>

definition solidus_name :: pystr where
  "solidus_name = ascii ''a'' @ [65295] @ ascii ''b.png''"

definition cjk_name :: pystr where
  "cjk_name = [20013] @ ascii ''.png''"

text \<open>The header value the second name leads to, \<open>attachment; filename="\<close> U+4E2D \<open>.glb"\<close>.\<close>

definition cjk_header :: pystr where
  "cjk_header = ascii ''attachment; filename='' @ [34, 20013] @ ascii ''.glb'' @ [34]"

text \<open>The text of the error that encoding the header for the second name raises.\<close>

definition cjk_message :: string where
  "cjk_message =
     [CHR 0x27] @ ''latin-1'' @ [CHR 0x27] @ '' codec can'' @ [CHR 0x27]
     @ ''t encode character '' @ [CHR 0x27, CHR 0x5C] @ ''u4e2d'' @ [CHR 0x27]
     @ '' in position 22: ordinal not in range(256)''"

definition fake_env ::
  "bool \<Rightarrow> exn + (nat, bytes, string) pipeline_obj \<Rightarrow> (nat, bytes, string, string \<times> string) env" where
  "fake_env cuda loaded =
     \<lparr>cuda_is_available = cuda,
      cuda_empty_cache = (\<lambda>w. (Inr (), 0)),
      from_pretrained = (\<lambda>name w. (loaded, w)),
      to_glb = (\<lambda>gaussian mesh simplify texture_size w. (Inr (gaussian, mesh), w)),
      glb_export = (\<lambda>glb file_type w. (Inr (''glTF'' @ fst glb @ snd glb), w)),
      image_open = (\<lambda>data w.
        (if take 3 data = ''PNG'' then Inr data
         else Inl (Raised ''cannot identify image file''), w)),
      sanitize = (\<lambda>name. Inr (sanitize_filename nfkd_examples (\<lambda>n. n) name))\<rparr>"

definition failing_export_env :: "(nat, bytes, string, string \<times> string) env" where
  "failing_export_env =
     (fake_env True (Inr fake_pipeline))
       \<lparr>glb_export := (\<lambda>glb file_type w. (Inl (Raised ''export failed''), w))\<rparr>"

definition fake_upload :: "pystr \<Rightarrow> bytes \<Rightarrow> nat upload_file" where
  "fake_upload name data = \<lparr>filename = name, file_read = (\<lambda>w. (Inr data, w))\<rparr>"

definition loaded_globals :: "string \<Rightarrow> (nat, bytes, string) pipeline_obj \<Rightarrow> (nat, bytes, string) globals" where
  "loaded_globals dev p = \<lparr>device = dev, pipeline = Some p\<rparr>"

definition unloaded_globals :: "string \<Rightarrow> (nat, bytes, string) globals" where
  "unloaded_globals dev = \<lparr>device = dev, pipeline = None\<rparr>"

definition fresh :: "nat state" where
  "fresh = \<lparr>world = 0, trace = []\<rparr>"

section \<open>Properties\<close>

subsection \<open>Splitting off the extension\<close>

lemma rfind_from_absent: "c \<notin> set xs \<Longrightarrow> rfind_from c xs i found = found"
  by (induction xs arbitrary: i found) auto

lemma rfind_from_present:
  "c \<in> set xs \<Longrightarrow>
     \<exists>k < length xs. rfind_from c xs i found = i + int k \<and> xs ! k = c \<and> c \<notin> set (drop (Suc k) xs)"
proof (induction xs arbitrary: i found)
  case Nil
  then show ?case by simp
next
  case (Cons x xs)
  show ?case
  proof (cases "c \<in> set xs")
    case True
    from Cons.IH [OF True, of "i + 1" "if x = c then i else found"]
    obtain k where k: "k < length xs"
      "rfind_from c xs (i + 1) (if x = c then i else found) = i + 1 + int k"
      "xs ! k = c" "c \<notin> set (drop (Suc k) xs)"
      by blast
    then show ?thesis
      by (intro exI [of _ "Suc k"]) simp
  next
    case False
    with Cons.prems have "x = c" by simp
    with False show ?thesis
      by (intro exI [of _ 0]) (simp add: rfind_from_absent)
  qed
qed

lemma rfind_absent: "c \<notin> set p \<Longrightarrow> rfind c p = - 1"
  by (simp add: rfind_def rfind_from_absent)

lemma rfind_present:
  "c \<in> set p \<Longrightarrow> \<exists>k < length p. rfind c p = int k \<and> p ! k = c \<and> c \<notin> set (drop (Suc k) p)"
  using rfind_from_present [of c p 0 "- 1"] by (simp add: rfind_def)

lemma skip_leading_dots_less: "skip_leading_dots p i d \<Longrightarrow> i < d"
  by (subst (asm) skip_leading_dots.simps) (simp split: if_splits)

lemma splitext_append: "fst (splitext p) @ snd (splitext p) = p"
  by (simp add: splitext_def Let_def)

lemma splitext_root_empty: "fst (splitext p) = [] \<longleftrightarrow> p = []"
proof
  assume "fst (splitext p) = []"
  then show "p = []"
    by (auto simp: splitext_def Let_def split: if_splits dest: skip_leading_dots_less)
next
  assume "p = []"
  then show "fst (splitext p) = []"
    by (simp add: splitext_def Let_def rfind_def)
qed

lemma splitext_root_subset: "set (fst (splitext p)) \<subseteq> set p"
  by (auto simp: splitext_def Let_def dest: in_set_takeD)

lemma splitext_ext:
  assumes "snd (splitext p) \<noteq> []"
  shows "hd (snd (splitext p)) = extsep \<and> extsep \<notin> set (tl (snd (splitext p)))
         \<and> sep \<notin> set (snd (splitext p))"
proof -
  let ?s = "rfind (sep) p" and ?d = "rfind (extsep) p"
  from assms have gt: "?d > ?s" and ext: "snd (splitext p) = drop (nat ?d) p"
    by (auto simp: splitext_def Let_def split: if_splits)
  have dot_in: "extsep \<in> set p"
  proof (rule ccontr)
    assume "extsep \<notin> set p"
    then have "?d = - 1" by (rule rfind_absent)
    moreover have "?s \<ge> - 1"
      using rfind_absent [of sep p] rfind_present [of sep p] by (cases "sep \<in> set p") auto
    ultimately show False using gt by simp
  qed
  then obtain k where k: "k < length p" "?d = int k" "p ! k = extsep"
      "extsep \<notin> set (drop (Suc k) p)"
    using rfind_present by blast
  have drop_k: "drop k p = extsep # drop (Suc k) p"
    using k(1,3) by (metis Cons_nth_drop_Suc)
  have no_sep: "sep \<notin> set (drop k p)"
  proof (cases "sep \<in> set p")
    case False
    then show ?thesis by (auto dest: in_set_dropD)
  next
    case True
    then obtain j where j: "j < length p" "?s = int j" "sep \<notin> set (drop (Suc j) p)"
      using rfind_present by blast
    with gt k(2) have "Suc j \<le> k" by simp
    then have "set (drop k p) \<subseteq> set (drop (Suc j) p)"
      by (simp add: set_drop_subset_set_drop)
    with j(3) show ?thesis by blast
  qed
  show ?thesis
    using ext k(2,4) drop_k no_sep by simp
qed

lemma base_name_of_eq:
  "base_name_of safe_name = (if safe_name = [] then ascii ''output'' else fst (splitext safe_name))"
  using splitext_root_empty [of safe_name]
  by (simp add: base_name_of_def split_beta)

lemma free_of_reserved_output: "free_of_reserved (ascii ''output'')"
  by (simp add: free_of_reserved_def reserved_chars_def ascii_def)

lemma free_of_reserved_root: "free_of_reserved p \<Longrightarrow> free_of_reserved (fst (splitext p))"
  using splitext_root_subset [of p] by (auto simp: free_of_reserved_def list_all_iff)

subsection \<open>Sequencing and the trace\<close>

lemma and_then_returns:
  "and_then m f s = (Inr b, s'') \<longleftrightarrow> (\<exists>a s'. m s = (Inr a, s') \<and> f a s' = (Inr b, s''))"
  by (auto simp: and_then_def split: prod.splits sum.splits)

lemma call_trace: "call ev f s = (r, s') \<Longrightarrow> trace s' = trace s @ [ev]"
  by (auto simp: call_def split: prod.splits)

lemma of_result_eq: "of_result r s = (r', s') \<longleftrightarrow> r = r' \<and> s' = s"
  by (auto simp: of_result_def)

lemma ret_eq: "ret a s = (r, s') \<longleftrightarrow> r = Inr a \<and> s' = s"
  by (auto simp: ret_def)

lemma raise_eq: "raise e s = (r, s') \<longleftrightarrow> r = Inl e \<and> s' = s"
  by (auto simp: raise_def)

lemma emit_eq: "emit ev s = (r, s') \<longleftrightarrow> r = Inr () \<and> s' = s\<lparr>trace := trace s @ [ev]\<rparr>"
  by (auto simp: emit_def)

subsection \<open>The handler, case by case\<close>

lemma new_response_returns:
  "new_response content media_type headers = Inr resp \<longleftrightarrow>
     encode_headers headers = Inr () \<and> resp = Response 200 content media_type headers"
  by (auto simp: new_response_def split: sum.splits)

lemma encode_headers_one: "encode_headers [(k, v)] = Inr () \<longleftrightarrow> latin1 v"
  by (simp add: encode_latin1_def Let_def)

lemma convert_try_returns:
  "convert_try env g file s = (Inr resp, s') \<longleftrightarrow>
     (\<exists>safe_name data img glb_bytes s1 s2.
        sanitize env (filename file) = Inr safe_name
      \<and> call FileRead (file_read file) s = (Inr data, s1)
      \<and> call ImageOpen (image_open env data) s1 = (Inr img, s2)
      \<and> process_image_to_glb_bytes env g img s2 = (Inr glb_bytes, s')
      \<and> latin1 (content_disposition (base_name_of safe_name))
      \<and> resp = Response 200 glb_bytes ''model/gltf-binary''
                 [(''Content-Disposition'', content_disposition (base_name_of safe_name))])"
  by (auto simp: convert_try_def and_then_returns of_result_eq ret_eq Let_def
                 new_response_returns encode_headers_one simp del: encode_headers.simps)

lemma convert_image_cases:
  "convert_image env g file s = (resp, s') \<longleftrightarrow>
     convert_try env g file s = (Inr resp, s')
   \<or> (\<exists>e s1. convert_try env g file s = (Inl e, s1)
        \<and> resp = JSONResponse 500 [(''error'', str_exn e)]
        \<and> s' = print_line (ErrorLine (str_exn e)) s1)"
  by (auto simp: convert_image_def split: prod.splits sum.splits)

subsection \<open>Running the doubles\<close>

text \<open>Unfolding sets for running the module on concrete inputs.\<close>

lemmas run_defs =
  convert_image_def convert_try_def process_image_to_glb_bytes_def
  and_then_def call_def of_result_def ret_def raise_def emit_def print_line_def
  getitem_def first_item_def

lemmas double_defs =
  fake_env_def fake_pipeline_def fake_upload_def loaded_globals_def fresh_def

lemmas name_defs =
  base_name_of_def splitext_def rfind_def skip_leading_dots.simps content_disposition_def
  download_name_def ascii_def sep_def extsep_def

lemmas header_defs =
  new_response_def encode_latin1_def latin1_def name_defs

lemmas sanitizer_defs =
  sanitize_filename_def drop_blacklisted_def drop_control_def guard_dots_def guard_reserved_def
  guard_empty_def guard_length_def nfkd_examples_def blacklist_def rstrip_def strip_def
  whitespace_def extsep_def reserved_names_def ascii_def

text \<open>The sanitizer on the names of the examples, and the header each name leads to.\<close>

lemma sanitize_cat:
  "sanitize_filename nfkd_examples (\<lambda>n. n) (ascii ''cat.png'') = ascii ''cat.png''"
  by (simp add: sanitizer_defs)

lemma header_cat:
  "new_response body media
     [(''Content-Disposition'', content_disposition (base_name_of (ascii ''cat.png'')))]
   = Inr (Response 200 body media
       [(''Content-Disposition'', ascii ''attachment; filename='' @ [34] @ ascii ''cat.glb'' @ [34])])"
  by (simp add: header_defs)

subsection \<open>Cleanup after a job\<close>

text \<open>
  C1 (as amended). A job that returns has called the pipeline once, converted and exported
  once, released the intermediate representation once (\<^verbatim>\<open>del outputs\<close>), and then
  issued the cache-reclaim call exactly once when the accelerator is available and not at
  all when it is not (the guard of line 75): these are the calls it made, in this order.
\<close>

theorem job_success_cleanup:
  assumes "process_image_to_glb_bytes env g img s = (Inr glb_bytes, s')"
  shows "trace s' = trace s @ [PipelineRun, ToGlb, GlbExport, DelOutputs]
                      @ (if cuda_is_available env then [EmptyCache] else [])"
proof -
  from assms obtain p where p: "pipeline g = Some p"
    by (cases "pipeline g") (auto simp: process_image_to_glb_bytes_def raise_eq)
  from assms p obtain s1 s2 s3 s4 glb gaussian mesh where
    run: "trace s1 = trace s @ [PipelineRun]"
    and glb: "call ToGlb (to_glb env gaussian mesh 0.95 1024) s1 = (Inr glb, s2)"
    and exp: "call GlbExport (glb_export env glb ''glb'') s2 = (Inr glb_bytes, s3)"
    and reclaim: "(if cuda_is_available env then call EmptyCache (cuda_empty_cache env) else ret ())
                    (s3\<lparr>trace := trace s3 @ [DelOutputs]\<rparr>) = (Inr (), s')"
    by (auto simp: process_image_to_glb_bytes_def and_then_returns of_result_eq ret_eq emit_eq
             dest!: call_trace [where ev = PipelineRun])
  from glb have t2: "trace s2 = trace s1 @ [ToGlb]" by (rule call_trace)
  from exp have t3: "trace s3 = trace s2 @ [GlbExport]" by (rule call_trace)
  from reclaim have "trace s' = trace s3 @ [DelOutputs] @ (if cuda_is_available env then [EmptyCache] else [])"
    by (auto simp: ret_eq split: if_splits dest: call_trace)
  with run t2 t3 show ?thesis by simp
qed

theorem job_success_cleanup_witness:
  "process_image_to_glb_bytes (fake_env True (Inr fake_pipeline))
       (loaded_globals ''cuda'' fake_pipeline) ''PNGx'' fresh
     = (Inr ''glTFgaussian:PNGxmesh:PNGx'',
        \<lparr>world = 0, trace = [PipelineRun, ToGlb, GlbExport, DelOutputs, EmptyCache]\<rparr>)
   \<and> trace (snd (process_image_to_glb_bytes (fake_env True (Inr fake_pipeline))
       (loaded_globals ''cuda'' fake_pipeline) ''PNGx'' fresh))
     = trace fresh @ [PipelineRun, ToGlb, GlbExport, DelOutputs]
         @ (if cuda_is_available (fake_env True (Inr fake_pipeline)) then [EmptyCache] else [])"
proof -
  have run: "process_image_to_glb_bytes (fake_env True (Inr fake_pipeline))
       (loaded_globals ''cuda'' fake_pipeline) ''PNGx'' fresh
     = (Inr ''glTFgaussian:PNGxmesh:PNGx'',
        \<lparr>world = 0, trace = [PipelineRun, ToGlb, GlbExport, DelOutputs, EmptyCache]\<rparr>)"
    by (simp add: run_defs double_defs)
  from job_success_cleanup [OF run] run show ?thesis
    by simp
qed

text \<open>
  C1 as stated fails. On a host without the accelerator a successful job issues no
  reclaim call; a job whose generation call raises, or whose export raises, ends after
  that call, with neither the release nor the reclaim call. In none of the three runs is
  the number of reclaim calls one.
\<close>

theorem cleanup_every_path_counterexample:
  "process_image_to_glb_bytes (fake_env False (Inr fake_pipeline))
       (loaded_globals ''cpu'' fake_pipeline) ''PNGx'' fresh
     = (Inr ''glTFgaussian:PNGxmesh:PNGx'',
        \<lparr>world = 1, trace = [PipelineRun, ToGlb, GlbExport, DelOutputs]\<rparr>)
   \<and> count_list (trace (snd (process_image_to_glb_bytes (fake_env False (Inr fake_pipeline))
       (loaded_globals ''cpu'' fake_pipeline) ''PNGx'' fresh))) EmptyCache = 0
   \<and> process_image_to_glb_bytes (fake_env True (Inr fake_pipeline))
       (loaded_globals ''cuda'' broken_pipeline) ''PNGx'' fresh
     = (Inl (Raised ''CUDA out of memory''), \<lparr>world = 1, trace = [PipelineRun]\<rparr>)
   \<and> count_list (trace (snd (process_image_to_glb_bytes (fake_env True (Inr fake_pipeline))
       (loaded_globals ''cuda'' broken_pipeline) ''PNGx'' fresh))) EmptyCache = 0
   \<and> process_image_to_glb_bytes failing_export_env
       (loaded_globals ''cuda'' fake_pipeline) ''PNGx'' fresh
     = (Inl (Raised ''export failed''), \<lparr>world = 1, trace = [PipelineRun, ToGlb, GlbExport]\<rparr>)
   \<and> count_list (trace (snd (process_image_to_glb_bytes failing_export_env
       (loaded_globals ''cuda'' fake_pipeline) ''PNGx'' fresh))) EmptyCache = 0"
  by (simp add: run_defs double_defs broken_pipeline_def failing_export_env_def)

subsection \<open>The base name and the download name\<close>

text \<open>
  What lines 88, 89 and 102 add to the sanitizer's result, whatever the sanitizer: the base
  name is that result without its final extension, or \<open>output\<close> exactly when the result is
  empty; it is never empty; it has a reserved character only if the result has one; the
  download name ends in \<open>.glb\<close>.
\<close>

lemma base_name_of_sanitized:
  "base_name_of safe_name = (if safe_name = [] then ascii ''output'' else fst (splitext safe_name))
   \<and> base_name_of safe_name \<noteq> []
   \<and> (free_of_reserved safe_name \<longrightarrow> free_of_reserved (base_name_of safe_name))
   \<and> suffix (ascii ''.glb'') (download_name (base_name_of safe_name))"
proof -
  have "base_name_of safe_name \<noteq> []"
    by (simp add: base_name_of_eq splitext_root_empty ascii_def)
  moreover have "free_of_reserved (base_name_of safe_name)" if "free_of_reserved safe_name"
    using that by (simp add: base_name_of_eq free_of_reserved_output free_of_reserved_root)
  moreover have "suffix (ascii ''.glb'') (download_name (base_name_of safe_name))"
    unfolding download_name_def by (rule suffix_appendI) simp
  ultimately show ?thesis
    by (simp add: base_name_of_eq)
qed

text \<open>The sanitizer returns no empty name, unless its rule for long names does.\<close>

lemma sanitize_filename_nonempty:
  assumes "\<And>n. shorten n \<noteq> []"
  shows "sanitize_filename nfkd shorten name \<noteq> []"
  using assms
  by (simp add: sanitize_filename_def guard_length_def guard_empty_def ascii_def)

lemma sanitize_solidus:
  "sanitize_filename nfkd_examples (\<lambda>n. n) solidus_name = ascii ''a/b.png''"
  by (simp add: sanitizer_defs solidus_name_def)

lemma header_solidus:
  "new_response body media
     [(''Content-Disposition'', content_disposition (base_name_of (ascii ''a/b.png'')))]
   = Inr (Response 200 body media
       [(''Content-Disposition'', ascii ''attachment; filename='' @ [34] @ ascii ''a/b.glb'' @ [34])])"
  by (simp add: header_defs)

lemma sanitize_empty:
  "sanitize_filename nfkd_examples (\<lambda>n. n) [] = ascii ''__''"
  by (simp add: sanitizer_defs)

lemma header_underscores:
  "new_response body media
     [(''Content-Disposition'', content_disposition (base_name_of (ascii ''__'')))]
   = Inr (Response 200 body media
       [(''Content-Disposition'', ascii ''attachment; filename='' @ [34] @ ascii ''__.glb'' @ [34])])"
  by (simp add: header_defs)

text \<open>
  C4 fails on the program. The sanitizer drops the slash before it normalises the name,
  and the normal form of U+FF0F is the slash: for the upload name \<open>a\<close> U+FF0F \<open>b.png\<close> the
  sanitized name is \<open>a/b.png\<close>, the base name \<open>a/b\<close> has a path separator, and the response
  proposes \<open>a/b.glb\<close>. For the empty upload name the sanitizer returns \<open>__\<close>, so the base
  name is \<open>__\<close> and the fallback of line 89 is not taken.
\<close>

theorem sanitized_name_keeps_separator:
  "sanitize (fake_env True (Inr fake_pipeline))
       (filename (fake_upload solidus_name ''PNGx''))
     = Inr (ascii ''a/b.png'')
   \<and> base_name_of (ascii ''a/b.png'') = ascii ''a/b''
   \<and> sep \<in> set (base_name_of (ascii ''a/b.png''))
   \<and> \<not> free_of_reserved (base_name_of (ascii ''a/b.png''))
   \<and> convert_image (fake_env True (Inr fake_pipeline)) (loaded_globals ''cuda'' fake_pipeline)
        (fake_upload solidus_name ''PNGx'') fresh
     = (Response 200 ''glTFgaussian:PNGxmesh:PNGx'' ''model/gltf-binary''
          [(''Content-Disposition'',
            ascii ''attachment; filename='' @ [34] @ ascii ''a/b.glb'' @ [34])],
        \<lparr>world = 0, trace = [FileRead, ImageOpen, PipelineRun, ToGlb, GlbExport, DelOutputs,
                              EmptyCache]\<rparr>)
   \<and> sanitize (fake_env True (Inr fake_pipeline)) (filename (fake_upload [] ''PNGx''))
     = Inr (ascii ''__'')
   \<and> base_name_of (ascii ''__'') = ascii ''__''
   \<and> fst (convert_image (fake_env True (Inr fake_pipeline)) (loaded_globals ''cuda'' fake_pipeline)
        (fake_upload [] ''PNGx'') fresh)
     = Response 200 ''glTFgaussian:PNGxmesh:PNGx'' ''model/gltf-binary''
         [(''Content-Disposition'',
           ascii ''attachment; filename='' @ [34] @ ascii ''__.glb'' @ [34])]"
proof -
  let ?env = "fake_env True (Inr fake_pipeline)"
  let ?g = "loaded_globals ''cuda'' fake_pipeline"
  have s1: "sanitize ?env (filename (fake_upload solidus_name ''PNGx''))
     = Inr (ascii ''a/b.png'')"
    by (simp add: double_defs sanitize_solidus)
  have b1: "base_name_of (ascii ''a/b.png'') = ascii ''a/b''"
    by (simp add: name_defs)
  have m1: "sep \<in> set (base_name_of (ascii ''a/b.png''))"
    by (simp add: name_defs)
  have f1: "\<not> free_of_reserved (base_name_of (ascii ''a/b.png''))"
    by (simp add: name_defs free_of_reserved_def reserved_chars_def)
  have r1: "convert_image ?env ?g
        (fake_upload solidus_name ''PNGx'') fresh
     = (Response 200 ''glTFgaussian:PNGxmesh:PNGx'' ''model/gltf-binary''
          [(''Content-Disposition'',
            ascii ''attachment; filename='' @ [34] @ ascii ''a/b.glb'' @ [34])],
        \<lparr>world = 0, trace = [FileRead, ImageOpen, PipelineRun, ToGlb, GlbExport, DelOutputs,
                              EmptyCache]\<rparr>)"
    by (simp add: run_defs double_defs sanitize_solidus header_solidus)
  have s2: "sanitize ?env (filename (fake_upload [] ''PNGx'')) = Inr (ascii ''__'')"
    by (simp add: double_defs sanitize_empty)
  have b2: "base_name_of (ascii ''__'') = ascii ''__''"
    by (simp add: name_defs)
  have r2: "fst (convert_image ?env ?g (fake_upload [] ''PNGx'') fresh)
     = Response 200 ''glTFgaussian:PNGxmesh:PNGx'' ''model/gltf-binary''
         [(''Content-Disposition'',
           ascii ''attachment; filename='' @ [34] @ ascii ''__.glb'' @ [34])]"
    by (simp add: run_defs double_defs sanitize_empty header_underscores)
  from s1 b1 m1 f1 r1 s2 b2 r2 show ?thesis
    by (intro conjI)
qed

lemma sanitize_tar_gz:
  "sanitize_filename nfkd_examples (\<lambda>n. n) (ascii ''model.tar.gz'') = ascii ''model.tar.gz''"
  by (simp add: sanitizer_defs)

lemma header_tar_gz:
  "new_response body media
     [(''Content-Disposition'', content_disposition (base_name_of (ascii ''model.tar.gz'')))]
   = Inr (Response 200 body media
       [(''Content-Disposition'',
         ascii ''attachment; filename='' @ [34] @ ascii ''model.tar.glb'' @ [34])])"
  by (simp add: header_defs)

text \<open>
  C9. Only the final extension is removed: the part split off is empty or is one dot
  followed by dot-free text, and the rest is kept. For the sanitized name \<open>model.tar.gz\<close>
  the base name is \<open>model.tar\<close>, and a success response proposes \<open>model.tar.glb\<close>.
\<close>

theorem final_extension_only:
  assumes "sanitize env (filename file) = Inr (ascii ''model.tar.gz'')"
  shows "base_name_of (ascii ''model.tar.gz'') = ascii ''model.tar''
       \<and> (\<forall>code body media hdrs s'.
             convert_image env g file s = (Response code body media hdrs, s') \<longrightarrow>
             hdrs = [(''Content-Disposition'',
                      ascii ''attachment; filename='' @ [34] @ ascii ''model.tar.glb'' @ [34])])
       \<and> (\<forall>p. fst (splitext p) @ snd (splitext p) = p
              \<and> (snd (splitext p) \<noteq> [] \<longrightarrow> hd (snd (splitext p)) = extsep)
              \<and> extsep \<notin> set (tl (snd (splitext p))))"
proof -
  have base: "base_name_of (ascii ''model.tar.gz'') = ascii ''model.tar''"
    by (simp add: name_defs)
  have cd: "content_disposition (ascii ''model.tar'')
            = ascii ''attachment; filename='' @ [34] @ ascii ''model.tar.glb'' @ [34]"
    by (simp add: content_disposition_def download_name_def ascii_def)
  have hdr: "hdrs = [(''Content-Disposition'',
                      ascii ''attachment; filename='' @ [34] @ ascii ''model.tar.glb'' @ [34])]"
    if "convert_image env g file s = (Response code body media hdrs, s')"
    for code body media hdrs s'
    using that assms base cd
    by (auto simp: convert_image_cases convert_try_returns)
  have ext: "fst (splitext p) @ snd (splitext p) = p
              \<and> (snd (splitext p) \<noteq> [] \<longrightarrow> hd (snd (splitext p)) = extsep)
              \<and> extsep \<notin> set (tl (snd (splitext p)))" for p
    using splitext_ext [of p] splitext_append [of p] by (cases "snd (splitext p) = []") auto
  from base hdr ext show ?thesis by blast
qed

theorem final_extension_only_witness:
  "sanitize (fake_env True (Inr fake_pipeline)) (filename (fake_upload (ascii ''model.tar.gz'') ''PNGx''))
     = Inr (ascii ''model.tar.gz'')
   \<and> base_name_of (ascii ''model.tar.gz'') = ascii ''model.tar''
   \<and> splitext (ascii ''model.tar.gz'') = (ascii ''model.tar'', ascii ''.gz'')
   \<and> fst (convert_image (fake_env True (Inr fake_pipeline)) (loaded_globals ''cuda'' fake_pipeline)
        (fake_upload (ascii ''model.tar.gz'') ''PNGx'') fresh)
      = Response 200 ''glTFgaussian:PNGxmesh:PNGx'' ''model/gltf-binary''
          [(''Content-Disposition'',
            ascii ''attachment; filename='' @ [34] @ ascii ''model.tar.glb'' @ [34])]"
proof -
  let ?env = "fake_env True (Inr fake_pipeline)"
  let ?file = "fake_upload (ascii ''model.tar.gz'') ''PNGx''"
  let ?g = "loaded_globals ''cuda'' fake_pipeline"
  have h: "sanitize ?env (filename ?file) = Inr (ascii ''model.tar.gz'')"
    by (simp add: double_defs sanitize_tar_gz)
  obtain code body media hdrs s' where
    r: "convert_image ?env ?g ?file fresh = (Response code body media hdrs, s')"
    and v: "code = 200" "body = ''glTFgaussian:PNGxmesh:PNGx''" "media = ''model/gltf-binary''"
    by (simp add: run_defs double_defs sanitize_tar_gz header_tar_gz)
  have sp: "splitext (ascii ''model.tar.gz'') = (ascii ''model.tar'', ascii ''.gz'')"
    by (simp add: name_defs)
  from final_extension_only [OF h, of ?g fresh] r v h sp show ?thesis
    by simp
qed

subsection \<open>A handle that is absent\<close>

lemma convert_try_unloaded:
  assumes "pipeline g = None"
  shows "\<exists>e s1. convert_try env g file s = (Inl e, s1)
           \<and> count_list (trace s1) PipelineRun = count_list (trace s) PipelineRun"
  using assms
  by (auto simp: convert_try_def and_then_def of_result_def call_def
                 process_image_to_glb_bytes_def raise_def Let_def
           split: sum.splits prod.splits)

lemma convert_image_unloaded:
  assumes "pipeline g = None"
  shows "\<exists>msg s'. convert_image env g file s = (JSONResponse 500 [(''error'', msg)], s')
           \<and> count_list (trace s') PipelineRun = count_list (trace s) PipelineRun"
proof -
  from convert_try_unloaded [OF assms] obtain e s1 where
    "convert_try env g file s = (Inl e, s1)"
    "count_list (trace s1) PipelineRun = count_list (trace s) PipelineRun"
    by blast
  then show ?thesis
    by (simp add: convert_image_def print_line_def)
qed

text \<open>
  C3. While \<^verbatim>\<open>pipeline\<close> is \<open>None\<close> the job raises \<open>Model is not loaded.\<close> at once,
  leaving the world and the trace as they were, so no generation call is made.
  \<^verbatim>\<open>POST /convert\<close> then answers 500 with an error payload for every upload, makes no
  generation call, and for an upload that is read and decoded the error is that message.
\<close>

theorem unavailable_handle_500:
  assumes "pipeline g = None"
  shows "process_image_to_glb_bytes env g img s = (Inl (RuntimeError ''Model is not loaded.''), s)
       \<and> (\<exists>msg. fst (convert_image env g file s) = JSONResponse 500 [(''error'', msg)])
       \<and> status_code (fst (convert_image env g file s)) = 500
       \<and> count_list (trace (snd (convert_image env g file s))) PipelineRun
           = count_list (trace s) PipelineRun
       \<and> (\<forall>safe_name image_data w1 img' w2.
             sanitize env (filename file) = Inr safe_name
           \<and> file_read file (world s) = (Inr image_data, w1)
           \<and> image_open env image_data w1 = (Inr img', w2)
           \<longrightarrow> fst (convert_image env g file s)
                 = JSONResponse 500 [(''error'', ''Model is not loaded.'')])"
proof -
  have job: "process_image_to_glb_bytes env g img s = (Inl (RuntimeError ''Model is not loaded.''), s)"
    for img :: 'b and s :: "'a state"
    using assms by (simp add: process_image_to_glb_bytes_def raise_def)
  obtain msg s' where r: "convert_image env g file s = (JSONResponse 500 [(''error'', msg)], s')"
    and t: "count_list (trace s') PipelineRun = count_list (trace s) PipelineRun"
    using convert_image_unloaded [OF assms] by blast
  have valid: "fst (convert_image env g file s) = JSONResponse 500 [(''error'', ''Model is not loaded.'')]"
    if "sanitize env (filename file) = Inr safe_name"
       "file_read file (world s) = (Inr image_data, w1)"
       "image_open env image_data w1 = (Inr img', w2)"
    for safe_name image_data w1 img' w2
    using that
    by (simp add: convert_image_def convert_try_def and_then_def of_result_def call_def job Let_def)
  from job r t valid show ?thesis
    by auto
qed

theorem unavailable_handle_500_witness:
  "pipeline (unloaded_globals ''cuda'') = None
   \<and> process_image_to_glb_bytes (fake_env True (Inl (Raised ''no weights'')))
        (unloaded_globals ''cuda'') ''PNGx'' fresh
      = (Inl (RuntimeError ''Model is not loaded.''), fresh)
   \<and> sanitize (fake_env True (Inl (Raised ''no weights''))) (filename (fake_upload (ascii ''cat.png'') ''PNGx''))
      = Inr (ascii ''cat.png'')
   \<and> file_read (fake_upload (ascii ''cat.png'') ''PNGx'') (world fresh) = (Inr ''PNGx'', 0)
   \<and> image_open (fake_env True (Inl (Raised ''no weights''))) ''PNGx'' 0 = (Inr ''PNGx'', 0)
   \<and> fst (convert_image (fake_env True (Inl (Raised ''no weights''))) (unloaded_globals ''cuda'')
        (fake_upload (ascii ''cat.png'') ''PNGx'') fresh)
      = JSONResponse 500 [(''error'', ''Model is not loaded.'')]
   \<and> count_list (trace (snd (convert_image (fake_env True (Inl (Raised ''no weights'')))
        (unloaded_globals ''cuda'') (fake_upload (ascii ''cat.png'') ''PNGx'') fresh))) PipelineRun = 0"
proof -
  let ?env = "fake_env True (Inl (Raised ''no weights''))"
  let ?file = "fake_upload (ascii ''cat.png'') ''PNGx''"
  have h: "pipeline (unloaded_globals ''cuda'') = None"
    by (simp add: unloaded_globals_def)
  have v: "sanitize ?env (filename ?file) = Inr (ascii ''cat.png'')"
      "file_read ?file (world fresh) = (Inr ''PNGx'', 0)"
      "image_open ?env ''PNGx'' 0 = (Inr ''PNGx'', 0)"
    by (simp_all add: double_defs sanitize_cat)
  have t: "trace fresh = []"
    by (simp add: fresh_def)
  from unavailable_handle_500 [OF h, of ?env "''PNGx''" fresh ?file] h v t show ?thesis
    by simp
qed

subsection \<open>The responses of \<^verbatim>\<open>POST /convert\<close>\<close>

text \<open>
  When the name is sanitized, the upload read and decoded, the job returns the artifact
  and the header value has no character above U+00FF, the response has status 200, the
  artifact as its body, media type \<open>model/gltf-binary\<close> and the header
  \<open>Content-Disposition: attachment; filename="<base_name>.glb"\<close>.
\<close>

lemma success_response_latin1:
  assumes "sanitize env (filename file) = Inr safe_name"
      and "file_read file (world s) = (Inr image_data, w1)"
      and "image_open env image_data w1 = (Inr img, w2)"
      and "process_image_to_glb_bytes env g img
             \<lparr>world = w2, trace = trace s @ [FileRead, ImageOpen]\<rparr> = (Inr glb_bytes, s')"
      and "latin1 (base_name_of safe_name)"
  shows "convert_image env g file s
         = (Response 200 glb_bytes ''model/gltf-binary''
              [(''Content-Disposition'',
                ascii ''attachment; filename='' @ [34] @ base_name_of safe_name @ ascii ''.glb''
                  @ [34])], s')"
proof -
  have "latin1 (content_disposition (base_name_of safe_name))"
    using assms(5) by (simp add: latin1_def content_disposition_def download_name_def ascii_def)
  then have "new_response glb_bytes ''model/gltf-binary''
               [(''Content-Disposition'', content_disposition (base_name_of safe_name))]
             = Inr (Response 200 glb_bytes ''model/gltf-binary''
                 [(''Content-Disposition'', content_disposition (base_name_of safe_name))])"
    by (simp add: new_response_returns encode_headers_one del: encode_headers.simps)
  with assms(1-4) show ?thesis
    by (simp add: convert_image_def convert_try_def and_then_def of_result_def call_def
                  Let_def content_disposition_def download_name_def)
qed

lemma sanitize_cjk:
  "sanitize_filename nfkd_examples (\<lambda>n. n) cjk_name = cjk_name"
  by (simp add: sanitizer_defs cjk_name_def)

lemma header_cjk:
  "new_response body media
     [(''Content-Disposition'', content_disposition (base_name_of cjk_name))]
   = Inl (UnicodeEncodeError cjk_header 22 23)"
  by (simp add: header_defs cjk_name_def cjk_header_def)

lemma str_cjk:
  "str_exn (UnicodeEncodeError cjk_header 22 23) = cjk_message"
  by (simp add: encode_error_text_def escape_char_def hex4_def digit_def decimal.simps ascii_def
                cjk_message_def cjk_header_def)

text \<open>
  C5 fails on the program. For the upload name U+4E2D \<open>.png\<close> the job returns the artifact,
  after the release and the reclaim call, and then the constructor of the response raises,
  inside the \<^verbatim>\<open>try\<close>, because the header value has a character above U+00FF: the
  answer is a 500 whose error is the text of the encoding error, not a 200.
\<close>

theorem unicode_name_answers_500:
  "sanitize (fake_env True (Inr fake_pipeline)) (filename (fake_upload cjk_name ''PNGx''))
     = Inr cjk_name
   \<and> process_image_to_glb_bytes (fake_env True (Inr fake_pipeline))
        (loaded_globals ''cuda'' fake_pipeline) ''PNGx''
        \<lparr>world = 0, trace = [FileRead, ImageOpen]\<rparr>
     = (Inr ''glTFgaussian:PNGxmesh:PNGx'',
        \<lparr>world = 0, trace = [FileRead, ImageOpen, PipelineRun, ToGlb, GlbExport, DelOutputs,
                              EmptyCache]\<rparr>)
   \<and> convert_image (fake_env True (Inr fake_pipeline)) (loaded_globals ''cuda'' fake_pipeline)
        (fake_upload cjk_name ''PNGx'') fresh
     = (JSONResponse 500 [(''error'', cjk_message)],
        \<lparr>world = 0, trace = [FileRead, ImageOpen, PipelineRun, ToGlb, GlbExport, DelOutputs,
                              EmptyCache, Printed (ErrorLine cjk_message)]\<rparr>)"
proof -
  let ?env = "fake_env True (Inr fake_pipeline)"
  let ?g = "loaded_globals ''cuda'' fake_pipeline"
  have s: "sanitize ?env (filename (fake_upload cjk_name ''PNGx'')) = Inr cjk_name"
    by (simp add: double_defs sanitize_cjk)
  have j: "process_image_to_glb_bytes ?env ?g ''PNGx'' \<lparr>world = 0, trace = [FileRead, ImageOpen]\<rparr>
     = (Inr ''glTFgaussian:PNGxmesh:PNGx'',
        \<lparr>world = 0, trace = [FileRead, ImageOpen, PipelineRun, ToGlb, GlbExport, DelOutputs,
                              EmptyCache]\<rparr>)"
    by (simp add: run_defs double_defs)
  have r: "convert_image ?env ?g (fake_upload cjk_name ''PNGx'') fresh
     = (JSONResponse 500 [(''error'', cjk_message)],
        \<lparr>world = 0, trace = [FileRead, ImageOpen, PipelineRun, ToGlb, GlbExport, DelOutputs,
                              EmptyCache, Printed (ErrorLine cjk_message)]\<rparr>)"
    by (simp add: run_defs double_defs sanitize_cjk header_cjk str_cjk del: str_exn.simps)
  from s j r show ?thesis
    by (intro conjI)
qed

text \<open>
  C6. The handler always answers, in one of two ways: with status 200 and as body the
  bytes that a job returned, or, when a statement of the \<^verbatim>\<open>try\<close> block raised, with
  status 500 and the payload \<open>{error: str(e)}\<close> of the exception raised, which carries no
  artifact bytes. Each place that can raise ends there: the sanitizer, the read of the
  upload, the decoding of the image, the job, and the constructor of the response.
\<close>

theorem failures_become_500:
  "((\<exists>glb_bytes safe_name img s2 s'.
        process_image_to_glb_bytes env g img s2 = (Inr glb_bytes, s')
      \<and> convert_image env g file s
          = (Response 200 glb_bytes ''model/gltf-binary''
               [(''Content-Disposition'', content_disposition (base_name_of safe_name))], s'))
    \<or> (\<exists>e s1.
        convert_try env g file s = (Inl e, s1)
      \<and> convert_image env g file s
          = (JSONResponse 500 [(''error'', str_exn e)], print_line (ErrorLine (str_exn e)) s1)))
   \<and> (\<forall>e. sanitize env (filename file) = Inl e \<longrightarrow>
          fst (convert_image env g file s) = JSONResponse 500 [(''error'', str_exn e)])
   \<and> (\<forall>safe_name e w1.
          sanitize env (filename file) = Inr safe_name
        \<and> file_read file (world s) = (Inl e, w1) \<longrightarrow>
          fst (convert_image env g file s) = JSONResponse 500 [(''error'', str_exn e)])
   \<and> (\<forall>safe_name image_data w1 e w2.
          sanitize env (filename file) = Inr safe_name
        \<and> file_read file (world s) = (Inr image_data, w1)
        \<and> image_open env image_data w1 = (Inl e, w2) \<longrightarrow>
          fst (convert_image env g file s) = JSONResponse 500 [(''error'', str_exn e)])
   \<and> (\<forall>safe_name image_data w1 img w2 e s'.
          sanitize env (filename file) = Inr safe_name
        \<and> file_read file (world s) = (Inr image_data, w1)
        \<and> image_open env image_data w1 = (Inr img, w2)
        \<and> process_image_to_glb_bytes env g img
             \<lparr>world = w2, trace = trace s @ [FileRead, ImageOpen]\<rparr> = (Inl e, s') \<longrightarrow>
          fst (convert_image env g file s) = JSONResponse 500 [(''error'', str_exn e)])
   \<and> (\<forall>safe_name image_data w1 img w2 glb_bytes s' e.
          sanitize env (filename file) = Inr safe_name
        \<and> file_read file (world s) = (Inr image_data, w1)
        \<and> image_open env image_data w1 = (Inr img, w2)
        \<and> process_image_to_glb_bytes env g img
             \<lparr>world = w2, trace = trace s @ [FileRead, ImageOpen]\<rparr> = (Inr glb_bytes, s')
        \<and> new_response glb_bytes ''model/gltf-binary''
             [(''Content-Disposition'', content_disposition (base_name_of safe_name))] = Inl e \<longrightarrow>
          fst (convert_image env g file s) = JSONResponse 500 [(''error'', str_exn e)])"
proof -
  have outcome: "(\<exists>glb_bytes safe_name img s2 s'.
        process_image_to_glb_bytes env g img s2 = (Inr glb_bytes, s')
      \<and> convert_image env g file s
          = (Response 200 glb_bytes ''model/gltf-binary''
               [(''Content-Disposition'', content_disposition (base_name_of safe_name))], s'))
    \<or> (\<exists>e s1.
        convert_try env g file s = (Inl e, s1)
      \<and> convert_image env g file s
          = (JSONResponse 500 [(''error'', str_exn e)], print_line (ErrorLine (str_exn e)) s1))"
  proof (cases "convert_try env g file s")
    case (Pair r s1)
    show ?thesis
    proof (cases r)
      case (Inl e)
      with Pair show ?thesis by (simp add: convert_image_def)
    next
      case (Inr resp)
      with Pair have "convert_try env g file s = (Inr resp, s1)" by simp
      then obtain safe_name img glb_bytes s2 where
        "process_image_to_glb_bytes env g img s2 = (Inr glb_bytes, s1)"
        "resp = Response 200 glb_bytes ''model/gltf-binary''
                   [(''Content-Disposition'', content_disposition (base_name_of safe_name))]"
        by (auto simp: convert_try_returns)
      with Pair Inr show ?thesis
        by (intro disjI1) (auto simp: convert_image_def)
    qed
  qed
  have sites:
    "sanitize env (filename file) = Inl e \<Longrightarrow>
       fst (convert_image env g file s) = JSONResponse 500 [(''error'', str_exn e)]"
    "sanitize env (filename file) = Inr safe_name \<and> file_read file (world s) = (Inl e, w1) \<Longrightarrow>
       fst (convert_image env g file s) = JSONResponse 500 [(''error'', str_exn e)]"
    "sanitize env (filename file) = Inr safe_name
       \<and> file_read file (world s) = (Inr image_data, w1)
       \<and> image_open env image_data w1 = (Inl e, w2) \<Longrightarrow>
       fst (convert_image env g file s) = JSONResponse 500 [(''error'', str_exn e)]"
    "sanitize env (filename file) = Inr safe_name
       \<and> file_read file (world s) = (Inr image_data, w1)
       \<and> image_open env image_data w1 = (Inr img, w2)
       \<and> process_image_to_glb_bytes env g img
            \<lparr>world = w2, trace = trace s @ [FileRead, ImageOpen]\<rparr> = (Inl e, s') \<Longrightarrow>
       fst (convert_image env g file s) = JSONResponse 500 [(''error'', str_exn e)]"
    "sanitize env (filename file) = Inr safe_name
       \<and> file_read file (world s) = (Inr image_data, w1)
       \<and> image_open env image_data w1 = (Inr img, w2)
       \<and> process_image_to_glb_bytes env g img
            \<lparr>world = w2, trace = trace s @ [FileRead, ImageOpen]\<rparr> = (Inr glb_bytes, s')
       \<and> new_response glb_bytes ''model/gltf-binary''
            [(''Content-Disposition'', content_disposition (base_name_of safe_name))] = Inl e \<Longrightarrow>
       fst (convert_image env g file s) = JSONResponse 500 [(''error'', str_exn e)]"
    for e safe_name w1 image_data w2 img s' glb_bytes
    by (simp_all add: convert_image_def convert_try_def and_then_def of_result_def call_def Let_def)
  from outcome sites show ?thesis
    by blast
qed

theorem failures_become_500_witness:
  "sanitize (fake_env True (Inr fake_pipeline)) (filename (fake_upload (ascii ''cat.png'') ''PNGx''))
     = Inr (ascii ''cat.png'')
   \<and> file_read (fake_upload (ascii ''cat.png'') ''PNGx'') (world fresh) = (Inr ''PNGx'', 0)
   \<and> image_open (fake_env True (Inr fake_pipeline)) ''PNGx'' 0 = (Inr ''PNGx'', 0)
   \<and> process_image_to_glb_bytes (fake_env True (Inr fake_pipeline))
        (loaded_globals ''cuda'' broken_pipeline) ''PNGx''
        \<lparr>world = 0, trace = trace fresh @ [FileRead, ImageOpen]\<rparr>
      = (Inl (Raised ''CUDA out of memory''),
         \<lparr>world = 1, trace = [FileRead, ImageOpen, PipelineRun]\<rparr>)
   \<and> fst (convert_image (fake_env True (Inr fake_pipeline)) (loaded_globals ''cuda'' broken_pipeline)
        (fake_upload (ascii ''cat.png'') ''PNGx'') fresh)
      = JSONResponse 500 [(''error'', ''CUDA out of memory'')]"
proof -
  let ?env = "fake_env True (Inr fake_pipeline)"
  let ?file = "fake_upload (ascii ''cat.png'') ''PNGx''"
  let ?g = "loaded_globals ''cuda'' broken_pipeline"
  have h1: "sanitize ?env (filename ?file) = Inr (ascii ''cat.png'')"
    by (simp add: double_defs sanitize_cat)
  have h2: "file_read ?file (world fresh) = (Inr ''PNGx'', 0)"
    by (simp add: double_defs)
  have h3: "image_open ?env ''PNGx'' 0 = (Inr ''PNGx'', 0)"
    by (simp add: double_defs)
  have h4: "process_image_to_glb_bytes ?env ?g ''PNGx''
        \<lparr>world = 0, trace = trace fresh @ [FileRead, ImageOpen]\<rparr>
      = (Inl (Raised ''CUDA out of memory''),
         \<lparr>world = 1, trace = [FileRead, ImageOpen, PipelineRun]\<rparr>)"
    by (simp add: run_defs double_defs broken_pipeline_def)
  from failures_become_500 [of ?env ?g ?file fresh] h1 h2 h3 h4
  have "fst (convert_image ?env ?g ?file fresh)
          = JSONResponse 500 [(''error'', str_exn (Raised ''CUDA out of memory''))]"
    by blast
  with h1 h2 h3 h4 show ?thesis
    by simp
qed

text \<open>
  C7 (as amended). When \<^verbatim>\<open>Image.open\<close> raises on the uploaded bytes, the response is a
  500 with an error payload and no generation call is made; when the name was sanitized,
  the payload is the message of the decode error, and the calls made are the read and the
  decode.
\<close>

theorem decode_failure_500:
  assumes "file_read file (world s) = (Inr image_data, w1)"
      and "image_open env image_data w1 = (Inl e, w2)"
  shows "(\<exists>msg. fst (convert_image env g file s) = JSONResponse 500 [(''error'', msg)])
       \<and> count_list (trace (snd (convert_image env g file s))) PipelineRun
           = count_list (trace s) PipelineRun
       \<and> (\<forall>safe_name. sanitize env (filename file) = Inr safe_name \<longrightarrow>
            convert_image env g file s
            = (JSONResponse 500 [(''error'', str_exn e)],
               \<lparr>world = w2,
                trace = trace s @ [FileRead, ImageOpen, Printed (ErrorLine (str_exn e))]\<rparr>))"
  using assms
  by (cases "sanitize env (filename file)")
     (simp_all add: convert_image_def convert_try_def and_then_def of_result_def call_def
                print_line_def Let_def)

theorem decode_failure_500_witness:
  "file_read (fake_upload (ascii ''cat.png'') ''hello'') (world fresh) = (Inr ''hello'', 0)
   \<and> image_open (fake_env True (Inr fake_pipeline)) ''hello'' 0
      = (Inl (Raised ''cannot identify image file''), 0)
   \<and> sanitize (fake_env True (Inr fake_pipeline)) (filename (fake_upload (ascii ''cat.png'') ''hello''))
      = Inr (ascii ''cat.png'')
   \<and> convert_image (fake_env True (Inr fake_pipeline)) (loaded_globals ''cuda'' fake_pipeline)
        (fake_upload (ascii ''cat.png'') ''hello'') fresh
      = (JSONResponse 500 [(''error'', ''cannot identify image file'')],
         \<lparr>world = 0,
          trace = [FileRead, ImageOpen, Printed (ErrorLine ''cannot identify image file'')]\<rparr>)"
proof -
  let ?env = "fake_env True (Inr fake_pipeline)"
  let ?file = "fake_upload (ascii ''cat.png'') ''hello''"
  have h1: "file_read ?file (world fresh) = (Inr ''hello'', 0)"
    by (simp add: double_defs)
  have h2: "image_open ?env ''hello'' 0 = (Inl (Raised ''cannot identify image file''), 0)"
    by (simp add: double_defs)
  have h3: "sanitize ?env (filename ?file) = Inr (ascii ''cat.png'')"
    by (simp add: double_defs sanitize_cat)
  have t: "trace fresh = []"
    by (simp add: fresh_def)
  from decode_failure_500 [OF h1 h2, of "loaded_globals ''cuda'' fake_pipeline"] h1 h2 h3 t
  show ?thesis
    by simp
qed

text \<open>
  C7 as stated fails. \<^verbatim>\<open>Image.open\<close> reads the signature and leaves the pixel data
  unread, so a file cut short after its signature is not a valid image and still passes
  line 94: the job starts, the generation call is made, and the error of the response is
  the one raised inside that call.
\<close>

theorem lazy_open_counterexample:
  "\<not> complete_image ''PNGcut''
   \<and> image_open (fake_env True (Inr reading_pipeline)) ''PNGcut'' 0 = (Inr ''PNGcut'', 0)
   \<and> convert_image (fake_env True (Inr reading_pipeline)) (loaded_globals ''cuda'' reading_pipeline)
        (fake_upload (ascii ''cat.png'') ''PNGcut'') fresh
      = (JSONResponse 500 [(''error'', ''image file is truncated'')],
         \<lparr>world = 1,
          trace = [FileRead, ImageOpen, PipelineRun,
                   Printed (ErrorLine ''image file is truncated'')]\<rparr>)
   \<and> count_list (trace (snd (convert_image (fake_env True (Inr reading_pipeline))
        (loaded_globals ''cuda'' reading_pipeline) (fake_upload (ascii ''cat.png'') ''PNGcut'')
        fresh))) PipelineRun = 1"
  by (simp add: run_defs fake_env_def fake_upload_def loaded_globals_def fresh_def
                reading_pipeline_def complete_image_def sanitize_cat)

subsection \<open>Start-up\<close>

text \<open>The device start-up chooses, and what it prints before it loads the pipeline.\<close>

lemma startup_device:
  "device (fst (startup env s0)) = (if cuda_is_available env then ''cuda'' else ''cpu'')"
  by (simp add: startup_def Let_def split: prod.splits sum.splits)

text \<open>
  C8. Start-up always ends, in one of three ways. If \<^verbatim>\<open>from_pretrained\<close> raises, or
  if \<^verbatim>\<open>pipeline.to(device)\<close> raises, \<^verbatim>\<open>pipeline\<close> is \<open>None\<close> and the failure is
  printed last. Otherwise \<^verbatim>\<open>pipeline\<close> is the loaded object, moved to the device. The
  device is \<open>cuda\<close> with the accelerator; without it the device is \<open>cpu\<close>, the two
  warning lines are printed after the loading line, and the pipeline is loaded and moved
  to \<open>cpu\<close> all the same. With \<^verbatim>\<open>pipeline = None\<close> the module serves: every conversion
  answers 500 and the root endpoint answers 200.
\<close>

theorem startup_degrades:
  "(\<forall>e w. from_pretrained env model_name (world s0) = (Inl e, w) \<longrightarrow>
        startup env s0
        = (\<lparr>device = (if cuda_is_available env then ''cuda'' else ''cpu''), pipeline = None\<rparr>,
           \<lparr>world = w,
            trace = trace s0 @ [Printed LoadingModel]
              @ (if cuda_is_available env then [] else [Printed CudaNotDetected, Printed MpsHint])
              @ [FromPretrained model_name, Printed (ModelLoadFailed (str_exn e))]\<rparr>))
   \<and> (\<forall>p w e w'. from_pretrained env model_name (world s0) = (Inr p, w)
         \<and> pipe_to p (if cuda_is_available env then ''cuda'' else ''cpu'') w = (Inl e, w') \<longrightarrow>
        startup env s0
        = (\<lparr>device = (if cuda_is_available env then ''cuda'' else ''cpu''), pipeline = None\<rparr>,
           \<lparr>world = w',
            trace = trace s0 @ [Printed LoadingModel]
              @ (if cuda_is_available env then [] else [Printed CudaNotDetected, Printed MpsHint])
              @ [FromPretrained model_name,
                 PipelineTo (if cuda_is_available env then ''cuda'' else ''cpu''),
                 Printed (ModelLoadFailed (str_exn e))]\<rparr>))
   \<and> (\<forall>p w w'. from_pretrained env model_name (world s0) = (Inr p, w)
         \<and> pipe_to p (if cuda_is_available env then ''cuda'' else ''cpu'') w = (Inr (), w') \<longrightarrow>
        startup env s0
        = (\<lparr>device = (if cuda_is_available env then ''cuda'' else ''cpu''), pipeline = Some p\<rparr>,
           \<lparr>world = w',
            trace = trace s0 @ [Printed LoadingModel]
              @ (if cuda_is_available env then [] else [Printed CudaNotDetected, Printed MpsHint])
              @ [FromPretrained model_name,
                 PipelineTo (if cuda_is_available env then ''cuda'' else ''cpu'')]\<rparr>))
   \<and> (pipeline (fst (startup env s0)) = None \<longrightarrow>
        (\<forall>file s. status_code (fst (convert_image env (fst (startup env s0)) file s)) = 500)
      \<and> root (fst (startup env s0))
          = JSONResponse 200 [(''status'', status_text),
              (''device'', if cuda_is_available env then ''cuda'' else ''cpu'')])
   \<and> (\<not> cuda_is_available env \<longrightarrow>
        device (fst (startup env s0)) = ''cpu''
      \<and> take 3 (drop (length (trace s0)) (trace (snd (startup env s0))))
          = [Printed LoadingModel, Printed CudaNotDetected, Printed MpsHint])"
proof -
  let ?dev = "if cuda_is_available env then ''cuda'' else ''cpu''"
  have a: "startup env s0
        = (\<lparr>device = ?dev, pipeline = None\<rparr>,
           \<lparr>world = w,
            trace = trace s0 @ [Printed LoadingModel]
              @ (if cuda_is_available env then [] else [Printed CudaNotDetected, Printed MpsHint])
              @ [FromPretrained model_name, Printed (ModelLoadFailed (str_exn e))]\<rparr>)"
    if "from_pretrained env model_name (world s0) = (Inl e, w)" for e w
    using that
    by (cases "cuda_is_available env")
       (simp_all add: startup_def load_pipeline_def and_then_def call_def print_line_def Let_def)
  have b: "startup env s0
        = (\<lparr>device = ?dev, pipeline = None\<rparr>,
           \<lparr>world = w',
            trace = trace s0 @ [Printed LoadingModel]
              @ (if cuda_is_available env then [] else [Printed CudaNotDetected, Printed MpsHint])
              @ [FromPretrained model_name, PipelineTo ?dev,
                 Printed (ModelLoadFailed (str_exn e))]\<rparr>)"
    if "from_pretrained env model_name (world s0) = (Inr p, w) \<and> pipe_to p ?dev w = (Inl e, w')"
    for p w e w'
    using that
    by (cases "cuda_is_available env")
       (simp_all add: startup_def load_pipeline_def and_then_def call_def print_line_def Let_def)
  have c: "startup env s0
        = (\<lparr>device = ?dev, pipeline = Some p\<rparr>,
           \<lparr>world = w',
            trace = trace s0 @ [Printed LoadingModel]
              @ (if cuda_is_available env then [] else [Printed CudaNotDetected, Printed MpsHint])
              @ [FromPretrained model_name, PipelineTo ?dev]\<rparr>)"
    if "from_pretrained env model_name (world s0) = (Inr p, w) \<and> pipe_to p ?dev w = (Inr (), w')"
    for p w w'
    using that
    by (cases "cuda_is_available env")
       (simp_all add: startup_def load_pipeline_def and_then_def call_def print_line_def ret_def
                      Let_def)
  have d: "status_code (fst (convert_image env (fst (startup env s0)) upload s)) = 500"
    if "pipeline (fst (startup env s0)) = None" for upload s
    using convert_image_unloaded [OF that, of env upload s] by auto
  have r: "root (fst (startup env s0))
              = JSONResponse 200 [(''status'', status_text), (''device'', ?dev)]"
    by (simp add: root_def startup_device)
  have pre: "take 3 (drop (length (trace s0)) (trace (snd (startup env s0))))
          = [Printed LoadingModel, Printed CudaNotDetected, Printed MpsHint]"
    if no_cuda: "\<not> cuda_is_available env"
  proof (cases "from_pretrained env model_name (world s0)")
    case (Pair loaded w)
    show ?thesis
    proof (cases loaded)
      case (Inl e)
      with Pair a [of e w] no_cuda show ?thesis by simp
    next
      case (Inr p)
      show ?thesis
      proof (cases "pipe_to p ''cpu'' w")
        case moved: (Pair m w')
        show ?thesis
        proof (cases m)
          case (Inl e)
          with Pair Inr moved b [of p w e w'] no_cuda show ?thesis by simp
        next
          case (Inr u)
          with Pair \<open>loaded = Inr p\<close> moved c [of p w w'] no_cuda show ?thesis by simp
        qed
      qed
    qed
  qed
  have dev: "\<not> cuda_is_available env \<Longrightarrow> device (fst (startup env s0)) = ''cpu''"
    by (simp add: startup_device)
  from a b c d r pre dev show ?thesis
    by (intro conjI allI impI) blast+
qed

theorem startup_degrades_witness:
  "from_pretrained (fake_env False (Inl (Raised ''no weights''))) model_name (world fresh)
     = (Inl (Raised ''no weights''), 0)
   \<and> \<not> cuda_is_available (fake_env False (Inl (Raised ''no weights'')))
   \<and> startup (fake_env False (Inl (Raised ''no weights''))) fresh
     = (\<lparr>device = ''cpu'', pipeline = None\<rparr>,
        \<lparr>world = 0,
         trace = [Printed LoadingModel, Printed CudaNotDetected, Printed MpsHint,
                  FromPretrained model_name, Printed (ModelLoadFailed ''no weights'')]\<rparr>)
   \<and> status_code (fst (convert_image (fake_env False (Inl (Raised ''no weights'')))
        (fst (startup (fake_env False (Inl (Raised ''no weights''))) fresh))
        (fake_upload (ascii ''cat.png'') ''PNGx'') fresh)) = 500
   \<and> from_pretrained (fake_env True (Inr unmovable_pipeline)) model_name (world fresh)
     = (Inr unmovable_pipeline, 0)
   \<and> pipe_to unmovable_pipeline ''cuda'' 0 = (Inl (Raised ''no CUDA device''), 0)
   \<and> startup (fake_env True (Inr unmovable_pipeline)) fresh
     = (\<lparr>device = ''cuda'', pipeline = None\<rparr>,
        \<lparr>world = 0,
         trace = [Printed LoadingModel, FromPretrained model_name, PipelineTo ''cuda'',
                  Printed (ModelLoadFailed ''no CUDA device'')]\<rparr>)
   \<and> from_pretrained (fake_env False (Inr fake_pipeline)) model_name (world fresh)
     = (Inr fake_pipeline, 0)
   \<and> pipe_to fake_pipeline ''cpu'' 0 = (Inr (), 0)
   \<and> startup (fake_env False (Inr fake_pipeline)) fresh
     = (\<lparr>device = ''cpu'', pipeline = Some fake_pipeline\<rparr>,
        \<lparr>world = 0,
         trace = [Printed LoadingModel, Printed CudaNotDetected, Printed MpsHint,
                  FromPretrained model_name, PipelineTo ''cpu'']\<rparr>)"
proof -
  let ?lost = "fake_env False (Inl (Raised ''no weights''))"
  let ?stuck = "fake_env True (Inr unmovable_pipeline)"
  let ?cpu = "fake_env False (Inr fake_pipeline)"
  have t: "trace fresh = []" "world fresh = 0"
    by (simp_all add: fresh_def)
  have l1: "from_pretrained ?lost model_name (world fresh) = (Inl (Raised ''no weights''), 0)"
    and l2: "\<not> cuda_is_available ?lost"
    by (simp_all add: fake_env_def fresh_def)
  from startup_degrades [of ?lost fresh] l1 l2 t
  have l3: "startup ?lost fresh
     = (\<lparr>device = ''cpu'', pipeline = None\<rparr>,
        \<lparr>world = 0,
         trace = [Printed LoadingModel, Printed CudaNotDetected, Printed MpsHint,
                  FromPretrained model_name, Printed (ModelLoadFailed ''no weights'')]\<rparr>)"
    by simp
  from startup_degrades [of ?lost fresh] l3
  have l4: "status_code (fst (convert_image ?lost (fst (startup ?lost fresh))
             (fake_upload (ascii ''cat.png'') ''PNGx'') fresh)) = 500"
    by simp
  have s1: "from_pretrained ?stuck model_name (world fresh) = (Inr unmovable_pipeline, 0)"
    and s2: "pipe_to unmovable_pipeline ''cuda'' 0 = (Inl (Raised ''no CUDA device''), 0)"
    and s3: "cuda_is_available ?stuck"
    by (simp_all add: fake_env_def fresh_def unmovable_pipeline_def fake_pipeline_def)
  from startup_degrades [of ?stuck fresh] s1 s2 s3 t
  have s4: "startup ?stuck fresh
     = (\<lparr>device = ''cuda'', pipeline = None\<rparr>,
        \<lparr>world = 0,
         trace = [Printed LoadingModel, FromPretrained model_name, PipelineTo ''cuda'',
                  Printed (ModelLoadFailed ''no CUDA device'')]\<rparr>)"
    by simp
  have c1: "from_pretrained ?cpu model_name (world fresh) = (Inr fake_pipeline, 0)"
    and c2: "pipe_to fake_pipeline ''cpu'' 0 = (Inr (), 0)"
    and c3: "\<not> cuda_is_available ?cpu"
    by (simp_all add: fake_env_def fresh_def fake_pipeline_def)
  from startup_degrades [of ?cpu fresh] c1 c2 c3 t
  have c4: "startup ?cpu fresh
     = (\<lparr>device = ''cpu'', pipeline = Some fake_pipeline\<rparr>,
        \<lparr>world = 0,
         trace = [Printed LoadingModel, Printed CudaNotDetected, Printed MpsHint,
                  FromPretrained model_name, PipelineTo ''cpu'']\<rparr>)"
    by simp
  from l1 l2 l3 l4 s1 s2 s4 c1 c2 c4 show ?thesis
    by (intro conjI)
qed

subsection \<open>The globals over a sequence of requests\<close>

lemma handle_globals:
  "handle env r (g, s) = (resp, g', s') \<Longrightarrow> g' = g \<and> (r = GetRoot \<longrightarrow> resp = root g)"
  by (cases r) (auto split: prod.splits)

lemma serve_globals:
  "serve env reqs (g, s) = (resps, g', s') \<Longrightarrow>
     g' = g \<and> length resps = length reqs
     \<and> (\<forall>i < length reqs. reqs ! i = GetRoot \<longrightarrow> resps ! i = root g)"
proof (induction reqs arbitrary: s resps g' s')
  case Nil
  then show ?case by simp
next
  case (Cons r rs)
  obtain resp g1 s1 where h: "handle env r (g, s) = (resp, g1, s1)"
    by (cases "handle env r (g, s)") auto
  obtain rest g2 s2 where sv: "serve env rs (g1, s1) = (rest, g2, s2)"
    by (cases "serve env rs (g1, s1)") auto
  from handle_globals [OF h] have g1: "g1 = g" and rt: "r = GetRoot \<longrightarrow> resp = root g"
    by simp_all
  from Cons.prems h sv have out: "resps = resp # rest" "g' = g2"
    by simp_all
  from Cons.IH [of s1 rest g2 s2] sv g1 out have ih: "g' = g" "length rest = length rs"
      "\<forall>i < length rs. rs ! i = GetRoot \<longrightarrow> rest ! i = root g"
    by simp_all
  show ?case
    using ih out rt by (auto simp: nth_Cons split: nat.splits)
qed

text \<open>
  C10. After start-up and any sequence of requests the globals are those start-up left:
  the device is the one chosen from the accelerator check, and every \<^verbatim>\<open>GET /\<close> in the
  sequence answers 200 with that device.
\<close>

theorem device_fixed_at_startup:
  "fst (snd (run_module env w0 reqs)) = fst (startup env \<lparr>world = w0, trace = []\<rparr>)
   \<and> device (fst (snd (run_module env w0 reqs)))
       = (if cuda_is_available env then ''cuda'' else ''cpu'')
   \<and> length (fst (run_module env w0 reqs)) = length reqs
   \<and> (\<forall>i < length reqs. reqs ! i = GetRoot \<longrightarrow>
         fst (run_module env w0 reqs) ! i
         = JSONResponse 200 [(''status'', status_text),
             (''device'', if cuda_is_available env then ''cuda'' else ''cpu'')])"
proof -
  obtain g s where st: "startup env \<lparr>world = w0, trace = []\<rparr> = (g, s)"
    by (cases "startup env \<lparr>world = w0, trace = []\<rparr>")
  obtain resps g' s' where sv: "serve env reqs (g, s) = (resps, g', s')"
    by (cases "serve env reqs (g, s)") auto
  from st have dev: "device g = (if cuda_is_available env then ''cuda'' else ''cpu'')"
    using startup_device [of env "\<lparr>world = w0, trace = []\<rparr>"] by simp
  from serve_globals [OF sv] st sv dev show ?thesis
    by (simp add: run_module_def root_def)
qed

theorem device_fixed_at_startup_witness:
  "(2 :: nat) < length [GetRoot, PostConvert (fake_upload (ascii ''cat.png'') ''PNGx''), GetRoot]
   \<and> [GetRoot, PostConvert (fake_upload (ascii ''cat.png'') ''PNGx''), GetRoot] ! 2 = GetRoot
   \<and> fst (run_module (fake_env True (Inr fake_pipeline)) 0
        [GetRoot, PostConvert (fake_upload (ascii ''cat.png'') ''PNGx''), GetRoot])
      = [JSONResponse 200 [(''status'', status_text), (''device'', ''cuda'')],
         Response 200 ''glTFgaussian:PNGxmesh:PNGx'' ''model/gltf-binary''
           [(''Content-Disposition'',
             ascii ''attachment; filename='' @ [34] @ ascii ''cat.glb'' @ [34])],
         JSONResponse 200 [(''status'', status_text), (''device'', ''cuda'')]]
   \<and> device (fst (snd (run_module (fake_env True (Inr fake_pipeline)) 0
        [GetRoot, PostConvert (fake_upload (ascii ''cat.png'') ''PNGx''), GetRoot]))) = ''cuda''"
proof -
  let ?env = "fake_env True (Inr fake_pipeline)"
  let ?reqs = "[GetRoot, PostConvert (fake_upload (ascii ''cat.png'') ''PNGx''), GetRoot]"
  have c: "cuda_is_available ?env"
    by (simp add: double_defs)
  have r: "fst (run_module ?env 0 ?reqs)
      = [JSONResponse 200 [(''status'', status_text), (''device'', ''cuda'')],
         Response 200 ''glTFgaussian:PNGxmesh:PNGx'' ''model/gltf-binary''
           [(''Content-Disposition'',
             ascii ''attachment; filename='' @ [34] @ ascii ''cat.glb'' @ [34])],
         JSONResponse 200 [(''status'', status_text), (''device'', ''cuda'')]]"
    by (simp add: run_module_def startup_def load_pipeline_def root_def run_defs double_defs
                  sanitize_cat header_cat)
  from device_fixed_at_startup [of ?env 0 ?reqs, THEN conjunct2, THEN conjunct1] c
  have d: "device (fst (snd (run_module ?env 0 ?reqs))) = ''cuda''"
    by (simp only: if_True)
  from d r show ?thesis
    by simp
qed

end
